theory Spec2Isabelle
  imports Complex_Main "HOL-Library.Char_ord" "HOL-Library.List_Lexorder"
begin

section \<open>Time\<close>

text \<open>
  Python's \<open>datetime\<close> and \<open>timedelta\<close> are exact counts of microseconds; both are
  modelled as integers in that unit.  \<open>timedelta(hours=1)\<close> is \<open>one_hour\<close>.
\<close>

type_synonym datetime = int
type_synonym timedelta = int
type_synonym pid = nat

definition seconds :: "int \<Rightarrow> timedelta" where
  "seconds n = n * 1000000"

definition minutes :: "int \<Rightarrow> timedelta" where
  "minutes n = seconds (n * 60)"

definition one_hour :: timedelta where
  "one_hour = minutes 60"

section \<open>The restart limiter (both supervisors)\<close>

text \<open>
  \<open>watchdog_monitor.py\<close>, class \<open>WatchdogMonitor\<close>: the fields set by \<open>__init__\<close>
  that the supervision logic reads or writes.
\<close>

record WatchdogMonitor =
  main_script :: string
  check_interval :: nat
  heartbeat_timeout :: rat
  restart_count :: nat
  max_restarts_per_hour :: int
  restart_history :: "datetime list"
  running :: bool

text \<open>The second component of the pair returned by \<open>check_restart_limit\<close>.\<close>

datatype limit_reason = TooManyRestarts nat int | FrequencyNormal

text \<open>
  \<open>check_restart_limit\<close>: \<open>current_time\<close> is \<open>datetime.now()\<close> at line 81.  The
  history is replaced by its pruned copy whatever the answer is.
\<close>

definition check_restart_limit ::
  "datetime \<Rightarrow> WatchdogMonitor \<Rightarrow> (bool \<times> limit_reason) \<times> WatchdogMonitor" where
  "check_restart_limit current_time self =
     (let one_hour_ago = current_time - one_hour;
          self = self\<lparr>restart_history := [t \<leftarrow> restart_history self. t > one_hour_ago]\<rparr>
      in if int (length (restart_history self)) \<ge> max_restarts_per_hour self
         then ((False, TooManyRestarts (length (restart_history self)) (max_restarts_per_hour self)), self)
         else ((True, FrequencyNormal), self))"

text \<open>
  \<open>watchdog_guardian.py\<close>, class \<open>WatchdogGuardian\<close>.  \<open>process\<close> is the \<open>Popen\<close>
  object: its pid and the return code it has cached (\<open>None\<close> while no \<open>poll\<close> has seen
  the child exit).
\<close>

record WatchdogGuardian =
  watchdog_script :: string
  restart_delay :: nat
  guardian_max_restarts_per_hour :: int
  restart_times :: "datetime list"
  process :: "(pid \<times> int option) option"
  stop_dialog_killer :: bool

definition is_too_many_restarts ::
  "datetime \<Rightarrow> WatchdogGuardian \<Rightarrow> bool \<times> WatchdogGuardian" where
  "is_too_many_restarts now self =
     (let one_hour_ago = now - one_hour;
          self = self\<lparr>restart_times := [t \<leftarrow> restart_times self. t > one_hour_ago]\<rparr>
      in (int (length (restart_times self)) \<ge> guardian_max_restarts_per_hour self, self))"

text \<open>
  The count the specification speaks of, written from its words: walk the history, drop
  every event whose timestamp is not strictly greater than \<open>now\<close> minus the window, count
  the rest.
\<close>

fun window_count :: "datetime \<Rightarrow> datetime list \<Rightarrow> nat" where
  "window_count now [] = 0"
| "window_count now (t # ts) =
     (if t \<le> now - one_hour then window_count now ts else Suc (window_count now ts))"

section \<open>The heartbeat probe\<close>

text \<open>
  A Python \<open>float\<close>: a finite double, which is a rational number, an infinity, or
  not-a-number.
\<close>

datatype pyfloat = Finite rat | PlusInfinity | MinusInfinity | NotANumber

text \<open>
  What \<open>json.load\<close> can return.  A number without fraction or exponent is an \<open>int\<close> of
  any size, any other number a \<open>float\<close> (the decoder also accepts \<open>NaN\<close>, \<open>Infinity\<close> and
  \<open>-Infinity\<close>).  An object keeps its members in document order.
\<close>

datatype json =
    JNull
  | JBool bool
  | JInt int
  | JFloat pyfloat
  | JStr string
  | JArr "json list"
  | JObj "(string \<times> json) list"

text \<open>
  The heartbeat file as \<open>check_heartbeat\<close> meets it: absent (\<open>os.path.exists\<close> is
  false), present but \<open>open\<close> or \<open>json.load\<close> raises, or parsed.
\<close>

datatype heartbeat_file = NoFile | LoadRaises | Loaded json

text \<open>
  \<open>data.get(key, fallback)\<close>.  Only a \<open>dict\<close> has the method: on any other value the
  attribute lookup raises (\<open>None\<close> here).  \<open>json.load\<close> keeps the last of several
  members with the same name.
\<close>

fun dict_get :: "json \<Rightarrow> string \<Rightarrow> json \<Rightarrow> json option" where
  "dict_get (JObj members) key fallback =
     Some (case map_of (rev members) key of None \<Rightarrow> fallback | Some v \<Rightarrow> v)"
| "dict_get _ key fallback = None"

text \<open>
  Float arithmetic rounds.  The rounding of an exact result to a double (to an infinity
  when it is beyond the range of the doubles) is not defined here: it is the parameter
  \<open>rnd\<close> of everything that computes with floats.

  \<open>float_of_int\<close> is the conversion of an \<open>int\<close> operand to \<open>float\<close>: it raises
  \<open>OverflowError\<close> (\<open>None\<close>) when the integer is too large.
\<close>

definition float_of_int :: "(rat \<Rightarrow> pyfloat) \<Rightarrow> int \<Rightarrow> pyfloat option" where
  "float_of_int rnd i = (case rnd (of_int i) of Finite r \<Rightarrow> Some (Finite r) | _ \<Rightarrow> None)"

text \<open>
  The right operand of \<open>current_time - last_timestamp\<close> as a float: a float is taken as it
  is, an integer or a boolean (Python's \<open>bool\<close> is an \<open>int\<close>) is converted; with anything
  else the subtraction raises \<open>TypeError\<close> (\<open>None\<close>).
\<close>

fun to_float :: "(rat \<Rightarrow> pyfloat) \<Rightarrow> json \<Rightarrow> pyfloat option" where
  "to_float rnd (JFloat f) = Some f"
| "to_float rnd (JInt i) = float_of_int rnd i"
| "to_float rnd (JBool b) = float_of_int rnd (if b then 1 else 0)"
| "to_float rnd _ = None"

text \<open>
  The float difference \<open>a - y\<close> for a finite \<open>a\<close>: the exact difference, rounded; the
  infinities and not-a-number behave as in IEEE 754 arithmetic.
\<close>

fun float_sub :: "(rat \<Rightarrow> pyfloat) \<Rightarrow> rat \<Rightarrow> pyfloat \<Rightarrow> pyfloat" where
  "float_sub rnd a (Finite b) = rnd (a - b)"
| "float_sub rnd a PlusInfinity = MinusInfinity"
| "float_sub rnd a MinusInfinity = PlusInfinity"
| "float_sub rnd a NotANumber = NotANumber"

text \<open>
  \<open>elapsed = current_time - last_timestamp\<close> (line 69): the float the code computes, or
  \<open>None\<close> when the subtraction raises.  \<open>time.time()\<close> is a finite float.
\<close>

definition elapsed_since :: "(rat \<Rightarrow> pyfloat) \<Rightarrow> rat \<Rightarrow> json \<Rightarrow> pyfloat option" where
  "elapsed_since rnd current_time last_timestamp =
     map_option (float_sub rnd current_time) (to_float rnd last_timestamp)"

text \<open>
  \<open>x > y\<close> for a float and a number: exact on finite values, false for not-a-number.
\<close>

fun float_gt :: "pyfloat \<Rightarrow> rat \<Rightarrow> bool" where
  "float_gt (Finite x) y = (x > y)"
| "float_gt PlusInfinity y = True"
| "float_gt MinusInfinity y = False"
| "float_gt NotANumber y = False"

text \<open>
  The message of \<open>check_heartbeat\<close>, by the f-string that builds it; the elapsed seconds are
  kept as the float they are.
\<close>

datatype heartbeat_message =
    HeartbeatFileMissing
  | HeartbeatTimeout pyfloat
  | HeartbeatNormal pyfloat
  | HeartbeatReadFailed

text \<open>
  \<open>check_heartbeat\<close>: \<open>file\<close> is the heartbeat file, \<open>current_time\<close> the value of
  \<open>time.time()\<close> at line 68.  Every exception inside the \<open>try\<close> ends in the last handler.
\<close>

definition check_heartbeat ::
  "(rat \<Rightarrow> pyfloat) \<Rightarrow> heartbeat_file \<Rightarrow> rat \<Rightarrow> WatchdogMonitor \<Rightarrow> bool \<times> heartbeat_message" where
  "check_heartbeat rnd file current_time self =
     (case file of
        NoFile \<Rightarrow> (False, HeartbeatFileMissing)
      | LoadRaises \<Rightarrow> (False, HeartbeatReadFailed)
      | Loaded data \<Rightarrow>
          (case dict_get data ''timestamp'' (JInt 0) of
             None \<Rightarrow> (False, HeartbeatReadFailed)
           | Some last_timestamp \<Rightarrow>
               (case elapsed_since rnd current_time last_timestamp of
                  None \<Rightarrow> (False, HeartbeatReadFailed)
                | Some elapsed \<Rightarrow>
                    if float_gt elapsed (heartbeat_timeout self)
                    then (False, HeartbeatTimeout elapsed)
                    else (True, HeartbeatNormal elapsed))))"

text \<open>The monitor as \<open>__init__\<close> builds it.\<close>

definition monitor_init :: WatchdogMonitor where
  "monitor_init =
     \<lparr>main_script = ''main.py'', check_interval = 60, heartbeat_timeout = 120,
      restart_count = 0, max_restarts_per_hour = 5, restart_history = [], running = True\<rparr>"

section \<open>What the supervisors do to the outside world\<close>

text \<open>
  The calls with an effect on a process or on the clock, in the order they are made.
  \<open>Launch cmd\<close> is a call of \<open>subprocess.Popen\<close> with the argument list \<open>cmd\<close>, whether it
  succeeds or raises; \<open>Sleep n\<close> is a \<open>time.sleep(n)\<close> that ran its full time;
  \<open>Terminate\<close> and \<open>Kill\<close> are the calls of \<open>terminate()\<close> and \<open>kill()\<close> on the process
  (on Windows both end the process by force; elsewhere the first sends \<open>SIGTERM\<close>, the
  second \<open>SIGKILL\<close>); \<open>WaitExit p n\<close> is \<open>proc.wait(timeout=n)\<close>.  Logging and e-mail
  notification are left out: both swallow their own failures and neither changes the
  state.
\<close>

datatype action =
    Launch "string list"
  | Sleep nat
  | Terminate pid
  | WaitExit pid nat
  | Kill pid

section \<open>The guardian (\<open>watchdog_guardian.py\<close>)\<close>

text \<open>
  \<open>start_watchdog\<close>.  \<open>executable\<close> is \<open>sys.executable\<close>; \<open>spawned\<close> is what \<open>Popen\<close> does:
  \<open>Some pid\<close> when the child is created, \<open>None\<close> when it raises.
\<close>

definition start_watchdog ::
  "string \<Rightarrow> pid option \<Rightarrow> WatchdogGuardian \<Rightarrow> bool \<times> WatchdogGuardian \<times> action list" where
  "start_watchdog executable spawned self =
     (let cmd = [executable, watchdog_script self, ''--auto-start'']
      in case spawned of
           Some p \<Rightarrow> (True, self\<lparr>process := Some (p, None)\<rparr>, [Launch cmd])
         | None \<Rightarrow> (False, self, [Launch cmd]))"

text \<open>
  \<open>self.process.poll()\<close>: a return code seen once is cached in the \<open>Popen\<close> object;
  until then the answer is the operating system's, \<open>answer\<close>.
\<close>

definition poll :: "int option \<Rightarrow> WatchdogGuardian \<Rightarrow> int option \<times> WatchdogGuardian" where
  "poll answer self =
     (case process self of
        None \<Rightarrow> (None, self)
      | Some (p, Some code) \<Rightarrow> (Some code, self)
      | Some (p, None) \<Rightarrow> (answer, self\<lparr>process := Some (p, answer)\<rparr>))"

text \<open>Where, in one pass of the outer loop of \<open>run\<close>, a \<open>KeyboardInterrupt\<close> is raised.\<close>

datatype interruption = NotInterrupted | WhileMonitoring | WhileSleeping

text \<open>
  What the outside world answers during one pass of the outer \<open>while True\<close> of \<open>run\<close>:
  \<^item> \<open>spawned\<close>: the outcome of \<open>Popen\<close> (line 136);
  \<^item> \<open>polls_running\<close>: how many times \<open>poll()\<close> at line 199 finds the worker running, each
    followed by \<open>monitor_output\<close> and \<open>time.sleep(1)\<close>;
  \<^item> \<open>returncode\<close>: the worker's return code when \<open>poll()\<close> then finds it gone;
  \<^item> \<open>exit_time\<close>, \<open>now_check\<close>: \<open>datetime.now()\<close> at lines 214 (the local
    \<open>current_time\<close>) and 112;
  \<^item> \<open>interrupt\<close>: \<open>WhileMonitoring\<close> when the interrupt is raised in the inner loop after
    \<open>polls_running\<close> rounds (the worker has not been seen to exit), \<open>WhileSleeping\<close> when
    it is raised in the sleep that ends the pass (line 191, 220 or 225);
  \<^item> \<open>poll_on_interrupt\<close>, \<open>poll_after_terminate\<close>: the operating system's answers to
    \<open>poll()\<close> at lines 230 and 234;
  \<^item> \<open>interrupted_again\<close>: whether a second \<open>KeyboardInterrupt\<close> is raised in the
    handler's own \<open>time.sleep(2)\<close> (line 233).
  An interrupt raised inside \<open>monitor_output\<close> never reaches \<open>run\<close> (its bare \<open>except\<close>
  swallows it) and is not an input here.
\<close>

record guardian_env =
  spawned :: "pid option"
  polls_running :: nat
  returncode :: int
  exit_time :: datetime
  now_check :: datetime
  interrupt :: interruption
  poll_on_interrupt :: "int option"
  poll_after_terminate :: "int option"
  interrupted_again :: bool

text \<open>
  The handler of \<open>KeyboardInterrupt\<close> in \<open>run\<close> (lines 227 to 236), entered after the
  calls \<open>calls\<close> already made.  The first component \<open>False\<close> says that \<open>run\<close> is left:
  by the \<open>break\<close>, or, when a second interrupt is raised in the handler's sleep, by that
  exception, which no handler of \<open>run\<close> catches; then the second \<open>poll\<close> and the \<open>kill\<close>
  are not reached.
\<close>

definition on_keyboard_interrupt ::
  "guardian_env \<Rightarrow> WatchdogGuardian \<Rightarrow> action list \<Rightarrow> bool \<times> WatchdogGuardian \<times> action list" where
  "on_keyboard_interrupt env self calls =
     (let self = self\<lparr>stop_dialog_killer := True\<rparr>
      in case process self of
           None \<Rightarrow> (False, self, calls)
         | Some (p, _) \<Rightarrow>
             (let (code, self) = poll (poll_on_interrupt env) self
              in if code = None then
                   (let calls = calls @ [Terminate p]
                    in if interrupted_again env then (False, self, calls)
                       else
                         (let calls = calls @ [Sleep 2];
                              (code, self) = poll (poll_after_terminate env) self
                          in if code = None then (False, self, calls @ [Kill p])
                             else (False, self, calls)))
                 else (False, self, calls)))"

text \<open>
  One pass of the outer loop of \<open>run\<close> (lines 187 to 236).  The first component says
  whether the loop goes on (\<open>True\<close>) or has been left by \<open>break\<close> (\<open>False\<close>).  The local
  counter \<open>restart_count\<close> only feeds a log line and is left out.  \<open>start_watchdog\<close>
  catches what \<open>Popen\<close> raises and none of the other calls raises an \<open>Exception\<close>, so
  the handler at line 237 has no branch here.
\<close>

definition run_pass ::
  "string \<Rightarrow> guardian_env \<Rightarrow> WatchdogGuardian \<Rightarrow> bool \<times> WatchdogGuardian \<times> action list" where
  "run_pass executable env self =
     (let (started, self, calls) = start_watchdog executable (spawned env) self
      in if \<not> started then
           (if interrupt env = WhileSleeping then on_keyboard_interrupt env self calls
            else (True, self, calls @ [Sleep (restart_delay self)]))
         else
           (let calls = calls @ replicate (polls_running env) (Sleep 1)
            in if interrupt env = WhileMonitoring then on_keyboard_interrupt env self calls
               else
                 (let (code, self) = poll (Some (returncode env)) self;
                      self = self\<lparr>restart_times := restart_times self @ [exit_time env]\<rparr>;
                      (too_many, self) = is_too_many_restarts (now_check env) self
                  in if too_many then
                       (if interrupt env = WhileSleeping then on_keyboard_interrupt env self calls
                        else (True, self\<lparr>restart_times := []\<rparr>, calls @ [Sleep 3600]))
                     else
                       (if interrupt env = WhileSleeping then on_keyboard_interrupt env self calls
                        else (True, self, calls @ [Sleep (restart_delay self)])))))"

text \<open>
  \<open>run\<close>: the outer loop, one pass per element of \<open>envs\<close>.  The loop has no exit but the
  interrupt handler; when the answers run out the loop is still going
  (first component \<open>True\<close>), and what is returned is its state and its calls so far.
\<close>

fun run ::
  "string \<Rightarrow> guardian_env list \<Rightarrow> WatchdogGuardian \<Rightarrow> bool \<times> WatchdogGuardian \<times> action list" where
  "run executable [] self = (True, self, [])"
| "run executable (env # envs) self =
     (let (going, self, calls) = run_pass executable env self
      in if going then
           (let (going, self, later) = run executable envs self in (going, self, calls @ later))
         else (False, self, calls))"

text \<open>The guardian as \<open>main\<close> builds it.\<close>

definition guardian_init :: WatchdogGuardian where
  "guardian_init =
     \<lparr>watchdog_script = ''main.py'', restart_delay = 5, guardian_max_restarts_per_hour = 10,
      restart_times = [], process = None, stop_dialog_killer = False\<rparr>"

section \<open>The monitor (\<open>watchdog_monitor.py\<close>)\<close>

text \<open>
  How lines 107 to 109 end: the process is gone within the ten seconds; \<open>wait\<close> raises
  because it is still there (where \<open>terminate\<close> sends \<open>SIGTERM\<close>, a process may ignore
  it or take longer to stop); or \<open>psutil.Process\<close> or \<open>terminate\<close> raises and no signal
  is sent.  The handler at line 111 logs the last two and goes on.
\<close>

datatype stop_outcome = ExitedInTime | StillRunning | SignalRaised

text \<open>
  What the outside world answers during one call of \<open>restart_main_program\<close>:
  \<open>limit_now\<close> is \<open>datetime.now()\<close> at line 81, \<open>existing\<close> is the pid found by
  \<open>check_process_exists\<close> at line 104, \<open>stopping\<close> the outcome of lines 107 to 109.
\<close>

record restart_env =
  limit_now :: datetime
  existing :: "pid option"
  stopping :: stop_outcome

text \<open>
  Lines 104 to 112 of \<open>restart_main_program\<close>: the attempt to end the process that is
  already there.  Whatever its outcome, the function goes on to line 115.
\<close>

definition terminate_existing :: "restart_env \<Rightarrow> action list" where
  "terminate_existing env =
     (case existing env of
        None \<Rightarrow> []
      | Some p \<Rightarrow>
          (case stopping env of
             SignalRaised \<Rightarrow> []
           | ExitedInTime \<Rightarrow> [Terminate p, WaitExit p 10]
           | StillRunning \<Rightarrow> [Terminate p, WaitExit p 10]))"

text \<open>
  \<open>restart_main_program\<close>.  Lines 115 to 117 raise \<open>AttributeError\<close> wherever the program
  runs: the module \<open>subprocess\<close> has no attribute \<open>STARTUPINFO\<close> outside Windows and no
  attribute \<open>SW_NORMAL\<close> on Windows.  The handler at line 136 catches it and answers
  \<open>False\<close>; the call of \<open>Popen\<close> at line 119 and lines 126 to 134, which count and record
  the restart, are never reached.
\<close>

definition restart_main_program ::
  "restart_env \<Rightarrow> WatchdogMonitor \<Rightarrow> bool \<times> WatchdogMonitor \<times> action list" where
  "restart_main_program env self =
     (let ((can_restart, reason), self) = check_restart_limit (limit_now env) self
      in if \<not> can_restart then (False, self, [])
         else
           (let calls = terminate_existing env
            in (False, self, calls)))"

text \<open>
  What the outside world answers during one pass of the loop of \<open>monitor_loop\<close>:
  \<open>found\<close> is the pid found by \<open>check_process_exists\<close> at line 195, \<open>heartbeat\<close> and \<open>clock\<close>
  are the heartbeat file and \<open>time.time()\<close>, \<open>restarting\<close> the answers to
  \<open>restart_main_program\<close> should it be called, \<open>interrupted\<close> whether a \<open>KeyboardInterrupt\<close>
  is raised in the sleep at line 222.
\<close>

record monitor_env =
  found :: "pid option"
  heartbeat :: heartbeat_file
  clock :: rat
  restarting :: restart_env
  interrupted :: bool

text \<open>
  One pass of the \<open>while self.running\<close> loop (lines 193 to 227).  The three functions
  called catch every \<open>Exception\<close> themselves, so the handler at line 228 has no branch
  here; the handler of \<open>KeyboardInterrupt\<close> clears \<open>running\<close> and leaves the loop.
\<close>

definition monitor_pass ::
  "(rat \<Rightarrow> pyfloat) \<Rightarrow> monitor_env \<Rightarrow> WatchdogMonitor \<Rightarrow> WatchdogMonitor \<times> action list" where
  "monitor_pass rnd env self =
     (let process_exists = (found env \<noteq> None);
          (heartbeat_ok, heartbeat_msg) = check_heartbeat rnd (heartbeat env) (clock env) self;
          need_restart = (\<not> process_exists \<or> \<not> heartbeat_ok);
          (self, calls) =
            (if need_restart then
               (let (restarted, self, calls) = restart_main_program (restarting env) self
                in if restarted then (self, calls @ [Sleep 30]) else (self, calls))
             else (self, []))
      in if interrupted env then (self\<lparr>running := False\<rparr>, calls)
         else (self, calls @ [Sleep (check_interval self)]))"

text \<open>
  \<open>monitor_loop\<close>: one pass per element of \<open>envs\<close> while \<open>self.running\<close> holds; the
  interrupt handler clears the flag and leaves the loop.
\<close>

fun monitor_loop ::
  "(rat \<Rightarrow> pyfloat) \<Rightarrow> monitor_env list \<Rightarrow> WatchdogMonitor \<Rightarrow> WatchdogMonitor \<times> action list" where
  "monitor_loop rnd [] self = (self, [])"
| "monitor_loop rnd (env # envs) self =
     (if running self then
        (let (self, calls) = monitor_pass rnd env self;
             (self, later) = monitor_loop rnd envs self
         in (self, calls @ later))
      else (self, []))"

section \<open>Spacing of launches\<close>

text \<open>
  The seconds slept, in a sequence of calls, before its first launch; \<open>None\<close> when it
  launches nothing.
\<close>

fun slept_until_launch :: "action list \<Rightarrow> nat option" where
  "slept_until_launch [] = None"
| "slept_until_launch (Launch cmd # rest) = Some 0"
| "slept_until_launch (Sleep n # rest) = map_option (\<lambda>s. n + s) (slept_until_launch rest)"
| "slept_until_launch (other # rest) = slept_until_launch rest"

text \<open>
  \<open>spaced d calls\<close>: after every launch in \<open>calls\<close>, at least \<open>d\<close> seconds are slept before
  the next launch, if there is one.
\<close>

fun spaced :: "nat \<Rightarrow> action list \<Rightarrow> bool" where
  "spaced d [] = True"
| "spaced d (Launch cmd # rest) =
     ((case slept_until_launch rest of None \<Rightarrow> True | Some s \<Rightarrow> d \<le> s) \<and> spaced d rest)"
| "spaced d (other # rest) = spaced d rest"

text \<open>The seconds slept in a sequence of calls, and the command lines it launches.\<close>

fun slept :: "action list \<Rightarrow> nat" where
  "slept [] = 0"
| "slept (Sleep n # rest) = n + slept rest"
| "slept (other # rest) = slept rest"

fun launches :: "action list \<Rightarrow> string list list" where
  "launches [] = []"
| "launches (Launch cmd # rest) = cmd # launches rest"
| "launches (other # rest) = launches rest"

section \<open>The closed-files table (\<open>file_status_viewer.py\<close>)\<close>

text \<open>
  \<open>format_duration\<close> builds one of three texts: seconds; minutes and seconds; hours and
  minutes.  The constructors stand for the three f-strings, the numbers for the integers
  printed in them.  \<open>int(x)\<close> truncates towards zero; \<open>//\<close> and \<open>%\<close> are floor division and
  its remainder, which are exact on doubles below \<open>2 ^ 53\<close>.  From there on they round:
  the text is still the one of hours and minutes, but its two integers are not computed
  here, and \<open>HoursMinutesRounded\<close> keeps the argument in their place.
\<close>

datatype duration_text =
    SecondsText int
  | MinutesSecondsText int int
  | HoursMinutesText int int
  | HoursMinutesRounded rat

definition py_int :: "rat \<Rightarrow> int" where
  "py_int x = (if x < 0 then \<lceil>x\<rceil> else \<lfloor>x\<rfloor>)"

definition py_floordiv :: "rat \<Rightarrow> rat \<Rightarrow> rat" where
  "py_floordiv x y = of_int \<lfloor>x / y\<rfloor>"

definition py_mod :: "rat \<Rightarrow> rat \<Rightarrow> rat" where
  "py_mod x y = x - y * of_int \<lfloor>x / y\<rfloor>"

definition format_duration :: "rat \<Rightarrow> duration_text" where
  "format_duration secs =
     (if secs < 60 then SecondsText (py_int secs)
      else if secs < 3600 then
        MinutesSecondsText (py_int (py_floordiv secs 60)) (py_int (py_mod secs 60))
      else if secs < 2 ^ 53 then
        HoursMinutesText (py_int (py_floordiv secs 3600))
                         (py_int (py_floordiv (py_mod secs 3600) 60))
      else HoursMinutesRounded secs)"

text \<open>
  \<open>timedelta.total_seconds()\<close>: the quotient, which Python rounds to a double; the 1200
  seconds of the table are one.
\<close>

definition total_seconds :: "timedelta \<Rightarrow> rat" where
  "total_seconds d = of_int d / 1000000"

text \<open>
  \<open>strftime('%H:%M:%S')\<close>: the time of day, two digits for each part.  A \<open>datetime\<close>
  counts microseconds from a midnight.
\<close>

definition two_digits :: "nat \<Rightarrow> string" where
  "two_digits n = [''0123456789'' ! ((n div 10) mod 10), ''0123456789'' ! (n mod 10)]"

definition strftime_HMS :: "datetime \<Rightarrow> string" where
  "strftime_HMS t =
     (let s = nat ((t div 1000000) mod 86400)
      in two_digits (s div 3600) @ '':'' @ two_digits ((s mod 3600) div 60) @ '':''
         @ two_digits (s mod 60))"

text \<open>
  One value of the \<open>file_status\<close> dictionary, with the keys the closed-files table reads;
  \<open>None\<close> is a key that is absent.  The text used for an absent author is two CJK
  characters, given here by their UTF-8 bytes.
\<close>

record file_entry =
  is_open :: "bool option"
  last_author :: "string option"
  opened_at :: "datetime option"

definition unknown_author :: string where
  "unknown_author = [CHR 0xE6, CHR 0x9C, CHR 0xAA, CHR 0xE7, CHR 0x9F, CHR 0xA5]"

text \<open>A row of the table: file name, author, opening time, closing time, time in use.\<close>

type_synonym closed_row = "string \<times> string \<times> string \<times> string \<times> duration_text"

text \<open>
  The body of the loop of \<open>show_closed_files_table\<close> (lines 149 to 162) for one entry
  that is not open.  \<open>basename\<close> is \<open>os.path.basename\<close>, which depends on the platform.
\<close>

definition closed_file_row ::
  "(string \<Rightarrow> string) \<Rightarrow> datetime \<Rightarrow> string \<times> file_entry \<Rightarrow> closed_row" where
  "closed_file_row basename current_time item =
     (let (file_path, status) = item;
          filename = basename file_path;
          author = (case last_author status of None \<Rightarrow> unknown_author | Some a \<Rightarrow> a);
          opened = (case opened_at status of None \<Rightarrow> current_time | Some t \<Rightarrow> t);
          closed = opened + minutes 20;
          duration = closed - opened
      in (filename, author, strftime_HMS opened, strftime_HMS closed,
          format_duration (total_seconds duration)))"

text \<open>The test of line 148: \<open>not status.get('is_open', True)\<close>.\<close>

definition not_open :: "string \<times> file_entry \<Rightarrow> bool" where
  "not_open item = (\<not> (case is_open (snd item) of None \<Rightarrow> True | Some b \<Rightarrow> b))"

text \<open>The slice \<open>xs[:limit]\<close>; a negative limit counts from the end.\<close>

definition py_take :: "int \<Rightarrow> 'a list \<Rightarrow> 'a list" where
  "py_take limit xs =
     (if limit < 0 then take (length xs - nat (- limit)) xs else take (nat limit) xs)"

text \<open>
  \<open>show_closed_files_table\<close>: the rows it prints, in order.  \<open>file_status\<close> is the
  dictionary as the list of its items, \<open>current_time\<close> is \<open>datetime.now()\<close>.  The sort is
  Python's stable sort on the opening-time text with \<open>reverse=True\<close>, which keeps the
  original order among equal keys.
\<close>

definition show_closed_files_table ::
  "(string \<Rightarrow> string) \<Rightarrow> datetime \<Rightarrow> (string \<times> file_entry) list \<Rightarrow> int \<Rightarrow> closed_row list" where
  "show_closed_files_table basename current_time file_status limit =
     (let closed_files = map (closed_file_row basename current_time) (filter not_open file_status)
      in if closed_files = [] then []
         else
           (let closed_files = rev (sort_key (\<lambda>x. fst (snd (snd x))) (rev closed_files));
                closed_files = py_take limit closed_files
            in closed_files))"

text \<open>
  The dictionary of \<open>create_mock_data\<close>, with the file names in place of the full paths.
\<close>

definition create_mock_data :: "datetime \<Rightarrow> (string \<times> file_entry) list" where
  "create_mock_data current_time =
     [(''A.xlsx'', \<lparr>is_open = Some True, last_author = Some ''Michael Cheng'',
                    opened_at = Some (current_time - minutes 15)\<rparr>),
      (''B.xlsx'', \<lparr>is_open = Some True, last_author = Some ''John Doe'',
                    opened_at = Some (current_time - minutes 8)\<rparr>),
      (''Data_v3.xlsx'', \<lparr>is_open = Some False, last_author = Some ''Jane Smith'',
                          opened_at = Some (current_time - minutes 120)\<rparr>),
      (''Report.xlsx'', \<lparr>is_open = Some False, last_author = Some ''Michael Cheng'',
                         opened_at = Some (current_time - minutes 90)\<rparr>)]"

text \<open>A clock reading at 14:00:00 of some day, to run the table on.\<close>

definition mock_now :: datetime where
  "mock_now = seconds (738000 * 86400 + 14 * 3600)"

section \<open>Concrete runs\<close>

text \<open>
  Answers of the outside world used to run the two supervisors on concrete inputs.  For
  the guardian: a launch that raises; a worker with the given pid that is seen running
  three times and then exits with code 1 at time \<open>t\<close>; the same worker interrupted while
  it runs, still alive at both polls of the handler; and the same with a second interrupt
  in the handler's sleep.
\<close>

definition start_failure :: guardian_env where
  "start_failure =
     \<lparr>spawned = None, polls_running = 0, returncode = 0, exit_time = 0, now_check = 0,
      interrupt = NotInterrupted, poll_on_interrupt = None, poll_after_terminate = None,
      interrupted_again = False\<rparr>"

definition worker_crash :: "pid \<Rightarrow> datetime \<Rightarrow> guardian_env" where
  "worker_crash p t =
     \<lparr>spawned = Some p, polls_running = 3, returncode = 1, exit_time = t, now_check = t,
      interrupt = NotInterrupted, poll_on_interrupt = None, poll_after_terminate = None,
      interrupted_again = False\<rparr>"



text \<open>
  A guardian built with \<open>restart_delay=7200\<close> and \<open>max_restarts_per_hour=1\<close>; nine workers
  that crash at intervals of 100 seconds; and the guardian of \<open>main\<close> after these nine.
\<close>

definition guardian_slow :: WatchdogGuardian where
  "guardian_slow = guardian_init\<lparr>restart_delay := 7200, guardian_max_restarts_per_hour := 1\<rparr>"

definition nine_crashes :: "guardian_env list" where
  "nine_crashes =
     map (\<lambda>t. worker_crash 4241 (seconds t)) [3100, 3200, 3300, 3400, 3500, 3600, 3700, 3800, 3900]"

definition guardian_busy :: WatchdogGuardian where
  "guardian_busy =
     guardian_init\<lparr>restart_times := map seconds [3100, 3200, 3300, 3400, 3500, 3600, 3700, 3800, 3900],
                   process := Some (4241, Some 1)\<rparr>"

text \<open>
  For the monitor: a rounding that leaves every value as it is (the runs below compute
  with whole numbers of seconds, which are doubles); the answers to one call of
  \<open>restart_main_program\<close>; a pass of the loop that finds no worker process; one that
  finds the process \<open>p\<close> but no heartbeat file; and one that finds the process \<open>p\<close> with a
  heartbeat written ten seconds ago.
\<close>

definition no_rounding :: "rat \<Rightarrow> pyfloat" where
  "no_rounding x = Finite x"

definition restart_answers :: "datetime \<Rightarrow> pid option \<Rightarrow> stop_outcome \<Rightarrow> restart_env" where
  "restart_answers t old outcome = \<lparr>limit_now = t, existing = old, stopping = outcome\<rparr>"

definition worker_missing :: "restart_env \<Rightarrow> bool \<Rightarrow> monitor_env" where
  "worker_missing r stop =
     \<lparr>found = None, heartbeat = NoFile, clock = 0, restarting = r, interrupted = stop\<rparr>"



section \<open>Properties of the limiter\<close>

lemma window_count_filter:
  "window_count now ts = length [t \<leftarrow> ts. t > now - one_hour]"
  by (induction ts) auto

text \<open>
  Claim C1.  For every history and every current time, the admission check denies exactly
  when the number of events left after pruning reaches the configured maximum, and allows
  otherwise; this holds for \<open>check_restart_limit\<close> (which answers \<open>False\<close> to deny) and
  for \<open>is_too_many_restarts\<close> (which answers \<open>True\<close> to deny).  The pruning is strict: an
  event exactly one hour old is not in the history that either function leaves behind.
\<close>

theorem C1_admission_denied_iff_window_full:
  "(fst (fst (check_restart_limit now m)) = False
      \<longleftrightarrow> int (window_count now (restart_history m)) \<ge> max_restarts_per_hour m)
   \<and> (fst (fst (check_restart_limit now m)) = True
      \<longleftrightarrow> int (window_count now (restart_history m)) < max_restarts_per_hour m)
   \<and> (fst (is_too_many_restarts now g)
      \<longleftrightarrow> int (window_count now (restart_times g)) \<ge> guardian_max_restarts_per_hour g)
   \<and> now - one_hour \<notin> set (restart_history (snd (check_restart_limit now m)))
   \<and> now - one_hour \<notin> set (restart_times (snd (is_too_many_restarts now g)))"
  by (auto simp: check_restart_limit_def is_too_many_restarts_def window_count_filter Let_def)

section \<open>Properties of the heartbeat probe\<close>

text \<open>
  Claim C5.  For a heartbeat record whose \<open>timestamp\<close> is a number and a timeout \<open>T\<close>, let
  \<open>elapsed\<close> be the float that \<open>current_time - last_timestamp\<close> gives.  The check reports
  healthy when \<open>elapsed\<close> equals \<open>T\<close> exactly, and more generally whenever it does not
  exceed \<open>T\<close>; it reports a timeout, with the elapsed time, as soon as \<open>elapsed\<close> exceeds
  \<open>T\<close>, for instance at \<open>T + 1\<close>.  The comparison is the strict one throughout: an
  infinite \<open>elapsed\<close> is a timeout exactly when it is the positive infinity, and
  not-a-number, which exceeds nothing, is healthy.  When the subtraction raises (an
  integer timestamp too large for a float) the record is reported as unreadable.
\<close>

theorem C5_heartbeat_boundary_is_alive:
  assumes "map_of (rev members) ''timestamp'' = Some v"
  shows "(elapsed_since rnd now v = Some (Finite e) \<and> e = heartbeat_timeout m \<longrightarrow>
            check_heartbeat rnd (Loaded (JObj members)) now m
              = (True, HeartbeatNormal (Finite (heartbeat_timeout m))))
       \<and> (elapsed_since rnd now v = Some (Finite e) \<and> e = heartbeat_timeout m + 1 \<longrightarrow>
            check_heartbeat rnd (Loaded (JObj members)) now m
              = (False, HeartbeatTimeout (Finite (heartbeat_timeout m + 1))))
       \<and> (elapsed_since rnd now v = Some (Finite e) \<and> e > heartbeat_timeout m \<longrightarrow>
            check_heartbeat rnd (Loaded (JObj members)) now m = (False, HeartbeatTimeout (Finite e)))
       \<and> (elapsed_since rnd now v = Some (Finite e) \<and> e \<le> heartbeat_timeout m \<longrightarrow>
            check_heartbeat rnd (Loaded (JObj members)) now m = (True, HeartbeatNormal (Finite e)))
       \<and> (elapsed_since rnd now v = Some PlusInfinity \<longrightarrow>
            check_heartbeat rnd (Loaded (JObj members)) now m = (False, HeartbeatTimeout PlusInfinity))
       \<and> (elapsed_since rnd now v = Some MinusInfinity \<longrightarrow>
            check_heartbeat rnd (Loaded (JObj members)) now m = (True, HeartbeatNormal MinusInfinity))
       \<and> (elapsed_since rnd now v = Some NotANumber \<longrightarrow>
            check_heartbeat rnd (Loaded (JObj members)) now m = (True, HeartbeatNormal NotANumber))
       \<and> (elapsed_since rnd now v = None \<longrightarrow>
            check_heartbeat rnd (Loaded (JObj members)) now m = (False, HeartbeatReadFailed))"
  using assms by (simp add: check_heartbeat_def)

theorem C5_heartbeat_boundary_witness:
  "map_of (rev [(''timestamp'', JInt 1000)]) ''timestamp'' = Some (JInt 1000)
   \<and> elapsed_since no_rounding 1120 (JInt 1000) = Some (Finite 120)
   \<and> heartbeat_timeout monitor_init = 120
   \<and> check_heartbeat no_rounding (Loaded (JObj [(''timestamp'', JInt 1000)])) 1120 monitor_init
       = (True, HeartbeatNormal (Finite 120))
   \<and> elapsed_since no_rounding 1121 (JInt 1000) = Some (Finite 121)
   \<and> check_heartbeat no_rounding (Loaded (JObj [(''timestamp'', JInt 1000)])) 1121 monitor_init
       = (False, HeartbeatTimeout (Finite 121))"
proof -
  have h: "map_of (rev [(''timestamp'', JInt 1000)]) ''timestamp'' = Some (JInt 1000)"
    by simp
  have T: "heartbeat_timeout monitor_init = 120"
    by (simp add: monitor_init_def)
  have e: "elapsed_since no_rounding 1120 (JInt 1000) = Some (Finite 120)"
    "elapsed_since no_rounding 1121 (JInt 1000) = Some (Finite 121)"
    by (simp_all add: elapsed_since_def float_of_int_def no_rounding_def)
  from C5_heartbeat_boundary_is_alive [OF h, of no_rounding 1120 120 monitor_init]
       C5_heartbeat_boundary_is_alive [OF h, of no_rounding 1121 121 monitor_init]
  show ?thesis using h T e by simp
qed

text \<open>
  Claim C10, as amended.  A heartbeat file that parses to a JSON object without a
  \<open>timestamp\<close> member is read with the last update at 0: with a rounding that leaves 0
  and the current time, both doubles, as they are, the elapsed time is the current time
  itself.  So for every current time beyond the timeout the record is reported as timed
  out, by the whole current time, and at no current time is it reported as unreadable.  A
  file that parses to a value that is not an object (an array, a string, a number, a
  boolean, \<open>null\<close>) is reported as unreadable.
\<close>

theorem C10_missing_timestamp_defaults_to_epoch:
  assumes "map_of (rev members) ''timestamp'' = None"
    and "rnd 0 = Finite 0" and "rnd now = Finite now"
  shows "(now > heartbeat_timeout m \<longrightarrow>
            check_heartbeat rnd (Loaded (JObj members)) now m = (False, HeartbeatTimeout (Finite now)))
       \<and> (now \<le> heartbeat_timeout m \<longrightarrow>
            check_heartbeat rnd (Loaded (JObj members)) now m = (True, HeartbeatNormal (Finite now)))
       \<and> snd (check_heartbeat rnd (Loaded (JObj members)) now m) \<noteq> HeartbeatReadFailed
       \<and> check_heartbeat rnd (Loaded (JObj members)) now m
           = check_heartbeat rnd (Loaded (JObj ((''timestamp'', JInt 0) # members))) now m
       \<and> check_heartbeat rnd (Loaded (JArr items)) now m = (False, HeartbeatReadFailed)
       \<and> check_heartbeat rnd (Loaded (JStr text)) now m = (False, HeartbeatReadFailed)
       \<and> check_heartbeat rnd (Loaded (JInt i)) now m = (False, HeartbeatReadFailed)
       \<and> check_heartbeat rnd (Loaded (JFloat f)) now m = (False, HeartbeatReadFailed)
       \<and> check_heartbeat rnd (Loaded (JBool b)) now m = (False, HeartbeatReadFailed)
       \<and> check_heartbeat rnd (Loaded JNull) now m = (False, HeartbeatReadFailed)"
  using assms
  by (simp add: check_heartbeat_def elapsed_since_def float_of_int_def map_add_def)

theorem C10_missing_timestamp_witness:
  "map_of (rev [(''status'', JStr ''running'')]) ''timestamp'' = None
   \<and> no_rounding 0 = Finite 0
   \<and> no_rounding 1700000000 = Finite 1700000000
   \<and> check_heartbeat no_rounding (Loaded (JObj [(''status'', JStr ''running'')])) 1700000000
         monitor_init
       = (False, HeartbeatTimeout (Finite 1700000000))"
proof -
  have h: "map_of (rev [(''status'', JStr ''running'')]) ''timestamp'' = None"
    by simp
  have r: "no_rounding 0 = Finite 0" "no_rounding 1700000000 = Finite 1700000000"
    by (simp_all add: no_rounding_def)
  have T: "heartbeat_timeout monitor_init = 120"
    by (simp add: monitor_init_def)
  from C10_missing_timestamp_defaults_to_epoch [OF h r, of monitor_init]
  show ?thesis using h r by (simp add: T)
qed

theorem C10_parsed_array_counterexample:
  "check_heartbeat no_rounding (Loaded (JArr [JInt 1000])) 1700000000 monitor_init
     = (False, HeartbeatReadFailed)
   \<and> check_heartbeat no_rounding (Loaded JNull) 1700000000 monitor_init
     = (False, HeartbeatReadFailed)
   \<and> (1700000000 :: rat) > heartbeat_timeout monitor_init"
  by (simp add: check_heartbeat_def monitor_init_def)

section \<open>Auxiliary facts about sequences of calls\<close>

lemma launches_append: "launches (a @ b) = launches a @ launches b"
  by (induction a rule: launches.induct) auto

lemma slept_append: "slept (a @ b) = slept a + slept b"
  by (induction a rule: slept.induct) auto

lemma slept_until_launch_append:
  "launches a = [] \<Longrightarrow> slept_until_launch (a @ b) = map_option (\<lambda>s. slept a + s) (slept_until_launch b)"
  by (cases "slept_until_launch b"; induction a rule: slept.induct) auto

lemma spaced_append_quiet:
  "launches a = [] \<Longrightarrow> spaced d (a @ b) = spaced d b"
  by (induction a rule: slept.induct) auto

lemma slept_until_launch_quiet:
  "launches a = [] \<Longrightarrow> slept_until_launch a = None"
  by (induction a rule: slept.induct) auto

lemma spaced_pass:
  assumes "launches pre = []" "launches tail = []" "spaced d rest"
    and "rest \<noteq> [] \<longrightarrow> d \<le> slept tail"
  shows "spaced d (pre @ Launch cmd # tail @ rest)"
proof -
  have "case slept_until_launch (tail @ rest) of None \<Rightarrow> True | Some s \<Rightarrow> d \<le> s"
    using assms(2,4)
    by (cases rest) (auto simp: slept_until_launch_append slept_until_launch_quiet split: option.splits)
  moreover have "spaced d (tail @ rest)"
    using assms(2,3) by (simp add: spaced_append_quiet)
  ultimately have "spaced d (Launch cmd # tail @ rest)"
    by simp
  then show ?thesis
    using assms(1) by (simp only: spaced_append_quiet)
qed

lemma launches_replicate_Sleep: "launches (replicate k (Sleep n)) = []"
  by (induction k) auto

lemma slept_replicate_Sleep: "slept (replicate k (Sleep n)) = k * n"
  by (induction k) auto

lemma spaced_quiet: "launches a = [] \<Longrightarrow> spaced d a"
  using spaced_append_quiet [of a d "[]"] by simp

lemma launches_set: "cmd \<in> set (launches a) \<longleftrightarrow> Launch cmd \<in> set a"
  by (induction a rule: launches.induct) auto

section \<open>Auxiliary facts about the guardian\<close>

lemma run_pass_config:
  "run_pass exe env g = (b, g', a) \<Longrightarrow>
     watchdog_script g' = watchdog_script g \<and> restart_delay g' = restart_delay g
     \<and> guardian_max_restarts_per_hour g' = guardian_max_restarts_per_hour g"
  by (auto simp: run_pass_def Let_def start_watchdog_def on_keyboard_interrupt_def poll_def
        is_too_many_restarts_def
       split: option.splits prod.splits if_splits)

lemma run_pass_shape:
  assumes "run_pass exe env g = (going, g', a)"
  shows "\<exists>tail. a = Launch [exe, watchdog_script g, ''--auto-start''] # tail
           \<and> launches tail = []
           \<and> (going \<longrightarrow> min (restart_delay g) 3600 \<le> slept tail)"
  using assms
  by (auto simp: run_pass_def Let_def start_watchdog_def on_keyboard_interrupt_def poll_def
        is_too_many_restarts_def launches_append slept_append
        launches_replicate_Sleep slept_replicate_Sleep
        split: option.splits prod.splits if_splits)

lemma run_spaced:
  "spaced (min (restart_delay g) 3600) (snd (snd (run exe envs g)))"
proof (induction envs arbitrary: g)
  case Nil
  show ?case by simp
next
  case (Cons env envs)
  obtain going g' a where pass: "run_pass exe env g = (going, g', a)"
    by (cases "run_pass exe env g") auto
  from run_pass_shape [OF pass] obtain tail where
    a: "a = Launch [exe, watchdog_script g, ''--auto-start''] # tail"
    and quiet: "launches tail = []"
    and long: "going \<longrightarrow> min (restart_delay g) 3600 \<le> slept tail"
    by blast
  have same: "restart_delay g' = restart_delay g"
    using run_pass_config [OF pass] by simp
  obtain going2 g2 later where rest: "run exe envs g' = (going2, g2, later)"
    by (cases "run exe envs g'") auto
  have IH: "spaced (min (restart_delay g) 3600) later"
    using Cons.IH [of g'] rest same by simp
  show ?case
  proof (cases going)
    case False
    have "spaced (min (restart_delay g) 3600) ([] @ Launch [exe, watchdog_script g, ''--auto-start''] # tail @ [])"
      using quiet by (intro spaced_pass) simp_all
    with False pass a show ?thesis by simp
  next
    case True
    have "spaced (min (restart_delay g) 3600) ([] @ Launch [exe, watchdog_script g, ''--auto-start''] # tail @ later)"
      using quiet IH long True by (intro spaced_pass) simp_all
    with True pass rest a show ?thesis by simp
  qed
qed

section \<open>Auxiliary facts about the monitor\<close>

lemma terminate_existing_quiet:
  "launches (terminate_existing env) = [] \<and> slept (terminate_existing env) = 0
   \<and> Kill p \<notin> set (terminate_existing env)"
  by (auto simp: terminate_existing_def split: option.splits stop_outcome.splits)

lemma check_restart_limit_history:
  "restart_history (snd (check_restart_limit now m)) = [t \<leftarrow> restart_history m. t > now - one_hour]
   \<and> restart_count (snd (check_restart_limit now m)) = restart_count m
   \<and> max_restarts_per_hour (snd (check_restart_limit now m)) = max_restarts_per_hour m
   \<and> check_interval (snd (check_restart_limit now m)) = check_interval m
   \<and> running (snd (check_restart_limit now m)) = running m"
  by (simp add: check_restart_limit_def Let_def)

lemma restart_main_program_eq:
  "restart_main_program env m
     = (False, snd (check_restart_limit (limit_now env) m),
        if fst (fst (check_restart_limit (limit_now env) m)) then terminate_existing env else [])"
  by (simp add: restart_main_program_def Let_def split: prod.splits)

text \<open>What one pass of the monitor's loop comes to, the restart never succeeding.\<close>

lemma monitor_pass_eq:
  "monitor_pass rnd env m
     = (let need = (found env = None \<or> \<not> fst (check_heartbeat rnd (heartbeat env) (clock env) m));
            m' = (if need then snd (check_restart_limit (limit_now (restarting env)) m) else m);
            stop = (if need \<and> fst (fst (check_restart_limit (limit_now (restarting env)) m))
                    then terminate_existing (restarting env) else [])
        in if interrupted env then (m'\<lparr>running := False\<rparr>, stop)
           else (m', stop @ [Sleep (check_interval m)]))"
  using check_restart_limit_history [of "limit_now (restarting env)" m]
  by (auto simp: monitor_pass_def restart_main_program_eq Let_def split: prod.splits)

lemma monitor_pass_keeps:
  "set (restart_history (fst (monitor_pass rnd env m))) \<subseteq> set (restart_history m)
   \<and> restart_count (fst (monitor_pass rnd env m)) = restart_count m
   \<and> max_restarts_per_hour (fst (monitor_pass rnd env m)) = max_restarts_per_hour m
   \<and> check_interval (fst (monitor_pass rnd env m)) = check_interval m
   \<and> (interrupted env \<longrightarrow> \<not> running (fst (monitor_pass rnd env m)))
   \<and> launches (snd (monitor_pass rnd env m)) = []
   \<and> Kill p \<notin> set (snd (monitor_pass rnd env m))"
  using check_restart_limit_history [of "limit_now (restarting env)" m]
        terminate_existing_quiet [of "restarting env" p]
  by (auto simp: monitor_pass_eq Let_def launches_append)

lemma monitor_loop_step:
  "running m \<Longrightarrow>
   monitor_loop rnd (env # envs) m
     = (fst (monitor_loop rnd envs (fst (monitor_pass rnd env m))),
        snd (monitor_pass rnd env m) @ snd (monitor_loop rnd envs (fst (monitor_pass rnd env m))))"
  by (simp add: Let_def split: prod.splits)

lemma monitor_loop_keeps:
  "set (restart_history (fst (monitor_loop rnd envs m))) \<subseteq> set (restart_history m)
   \<and> restart_count (fst (monitor_loop rnd envs m)) = restart_count m
   \<and> max_restarts_per_hour (fst (monitor_loop rnd envs m)) = max_restarts_per_hour m
   \<and> launches (snd (monitor_loop rnd envs m)) = []
   \<and> Kill p \<notin> set (snd (monitor_loop rnd envs m))"
proof (induction envs arbitrary: m)
  case Nil
  show ?case by simp
next
  case (Cons env envs)
  show ?case
  proof (cases "running m")
    case False
    then show ?thesis by simp
  next
    case True
    let ?m' = "fst (monitor_pass rnd env m)"
    from monitor_pass_keeps [of rnd env m p] Cons.IH [of ?m']
    show ?thesis
      unfolding monitor_loop_step [OF True] by (auto simp: launches_append)
  qed
qed

section \<open>Properties of the supervision loops\<close>

lemma run_launches:
  "cmd \<in> set (launches (snd (snd (run exe envs g))))
     \<Longrightarrow> cmd = [exe, watchdog_script g, ''--auto-start'']"
proof (induction envs arbitrary: g)
  case Nil
  then show ?case by simp
next
  case (Cons env envs)
  obtain going g' a where pass: "run_pass exe env g = (going, g', a)"
    by (cases "run_pass exe env g") auto
  from run_pass_shape [OF pass] obtain tail where
    a: "a = Launch [exe, watchdog_script g, ''--auto-start''] # tail" "launches tail = []"
    by blast
  have same: "watchdog_script g' = watchdog_script g"
    using run_pass_config [OF pass] by simp
  obtain going2 g2 later where rest: "run exe envs g' = (going2, g2, later)"
    by (cases "run exe envs g'") auto
  have "cmd \<in> set (launches later) \<Longrightarrow> cmd = [exe, watchdog_script g, ''--auto-start'']"
    using Cons.IH [of g'] rest same by simp
  with Cons.prems pass rest a show ?case
    by (cases going) (auto simp: launches_append)
qed

text \<open>
  Claim C8.  Every start operation of the guardian calls \<open>Popen\<close> with the argument list
  \<open>[sys.executable, watchdog_script, "--auto-start"]\<close>, so every launch made in any run
  of its loop carries the flag that asks for a start without the interactive set-up.
  The monitor makes no launch at all: neither \<open>restart_main_program\<close> nor any run of its
  loop reaches a call of \<open>Popen\<close>.
\<close>

theorem C8_every_launch_passes_auto_start:
  "snd (snd (start_watchdog exe answer g)) = [Launch [exe, watchdog_script g, ''--auto-start'']]
   \<and> (Launch cmd \<in> set (snd (snd (run exe envs g)))
      \<longrightarrow> cmd = [exe, watchdog_script g, ''--auto-start''] \<and> ''--auto-start'' \<in> set cmd)
   \<and> Launch cmd \<notin> set (snd (snd (restart_main_program renv m)))
   \<and> Launch cmd \<notin> set (snd (monitor_loop rnd menvs m))"
proof (intro conjI impI)
  show "snd (snd (start_watchdog exe answer g)) = [Launch [exe, watchdog_script g, ''--auto-start'']]"
    by (simp add: start_watchdog_def Let_def split: option.splits)
next
  assume "Launch cmd \<in> set (snd (snd (run exe envs g)))"
  then show "cmd = [exe, watchdog_script g, ''--auto-start'']"
    using run_launches [of cmd exe envs g] by (simp add: launches_set)
  then show "''--auto-start'' \<in> set cmd" by simp
next
  have "launches (snd (snd (restart_main_program renv m))) = []"
    using terminate_existing_quiet [of renv] by (simp add: restart_main_program_eq)
  then show "Launch cmd \<notin> set (snd (snd (restart_main_program renv m)))"
    using launches_set [of cmd "snd (snd (restart_main_program renv m))"] by simp
next
  show "Launch cmd \<notin> set (snd (monitor_loop rnd menvs m))"
    using monitor_loop_keeps [of rnd menvs m] launches_set [of cmd "snd (monitor_loop rnd menvs m)"]
    by simp
qed

theorem C8_every_launch_passes_auto_start_witness:
  "Launch [''python'', ''main.py'', ''--auto-start'']
     \<in> set (snd (snd (run ''python'' [start_failure] guardian_init)))
   \<and> ''--auto-start'' \<in> set [''python'', ''main.py'', ''--auto-start'']
   \<and> snd (monitor_loop no_rounding
            [worker_missing (restart_answers (seconds 4000) None ExitedInTime) False] monitor_init)
       = [Sleep 60]"
proof -
  have g: "Launch [''python'', ''main.py'', ''--auto-start'']
     \<in> set (snd (snd (run ''python'' [start_failure] guardian_init)))"
    by (simp add: run_pass_def start_watchdog_def start_failure_def guardian_init_def)
  have m: "snd (monitor_loop no_rounding
            [worker_missing (restart_answers (seconds 4000) None ExitedInTime) False] monitor_init)
       = [Sleep 60]"
    by (simp add: monitor_pass_def restart_main_program_def check_restart_limit_def
          check_heartbeat_def terminate_existing_def restart_answers_def worker_missing_def
          monitor_init_def)
  from C8_every_launch_passes_auto_start
         [of "''python''" _ guardian_init "[''python'', ''main.py'', ''--auto-start'']"
             "[start_failure]"]
       g m
  show ?thesis by simp
qed










lemma nine_crashes_guardian_busy:
  "run ''python'' nine_crashes guardian_init
     = (True, guardian_busy,
        concat (replicate 9
          [Launch [''python'', ''main.py'', ''--auto-start''], Sleep 1, Sleep 1, Sleep 1, Sleep 5]))"
  by (simp add: nine_crashes_def guardian_busy_def guardian_init_def worker_crash_def
        run_pass_def start_watchdog_def poll_def is_too_many_restarts_def
        seconds_def minutes_def one_hour_def numeral_3_eq_3 eval_nat_numeral)

lemma monitor_init_never_records:
  "restart_history (fst (monitor_loop rnd menvs monitor_init)) = []
   \<and> max_restarts_per_hour (fst (monitor_loop rnd menvs monitor_init)) = 5"
  using monitor_loop_keeps [of rnd menvs monitor_init]
  by (simp add: monitor_init_def)

text \<open>
  Claim C2.  In the guardian, whenever the admission check after a worker's exit denies
  the restart (and no interrupt arrives), the loop sleeps 3600 seconds, empties the
  restart history, stays in the loop, and the next thing it does is to launch the worker
  again; the sleep of the restart delay does not occur in that pass.  In the monitor the
  admission check never denies: no run of its loop from the state \<open>__init__\<close> builds
  records a restart, so the history stays empty, below the maximum of 5.
\<close>

theorem C2_denied_backs_off_full_window:
  "(spawned genv = Some p \<and> interrupt genv = NotInterrupted
      \<and> guardian_max_restarts_per_hour g
            \<le> int (window_count (now_check genv) (restart_times g @ [exit_time genv])) \<longrightarrow>
      fst (run_pass exe genv g) = True
      \<and> restart_times (fst (snd (run_pass exe genv g))) = []
      \<and> snd (snd (run_pass exe genv g))
          = Launch [exe, watchdog_script g, ''--auto-start'']
            # replicate (polls_running genv) (Sleep 1) @ [Sleep 3600]
      \<and> (\<exists>rest. snd (snd (run exe (genv # genv2 # envs) g))
            = Launch [exe, watchdog_script g, ''--auto-start'']
              # replicate (polls_running genv) (Sleep 1)
              @ Sleep 3600 # Launch [exe, watchdog_script g, ''--auto-start''] # rest))
   \<and> restart_history (fst (monitor_loop rnd menvs monitor_init)) = []
   \<and> fst (fst (check_restart_limit t (fst (monitor_loop rnd menvs monitor_init)))) = True"
proof (intro conjI impI)
  assume h: "spawned genv = Some p \<and> interrupt genv = NotInterrupted
      \<and> guardian_max_restarts_per_hour g
            \<le> int (window_count (now_check genv) (restart_times g @ [exit_time genv]))"
  let ?cmd = "[exe, watchdog_script g, ''--auto-start'']"
  let ?calls = "Launch ?cmd # replicate (polls_running genv) (Sleep 1) @ [Sleep 3600]"
  let ?g' = "g\<lparr>process := Some (p, Some (returncode genv)), restart_times := []\<rparr>"
  from h have pass: "run_pass exe genv g = (True, ?g', ?calls)"
    by (simp add: run_pass_def start_watchdog_def poll_def is_too_many_restarts_def
          window_count_filter Let_def)
  show "fst (run_pass exe genv g) = True"
    by (simp add: pass)
  show "restart_times (fst (snd (run_pass exe genv g))) = []"
    by (simp add: pass)
  show "snd (snd (run_pass exe genv g)) = ?calls"
    by (simp add: pass)
  obtain going2 g2 a2 where nxt: "run_pass exe genv2 ?g' = (going2, g2, a2)"
    by (cases "run_pass exe genv2 ?g'") auto
  from run_pass_shape [OF nxt] obtain tail where a2: "a2 = Launch ?cmd # tail"
    by auto
  obtain going3 g3 a3 where rest: "run exe envs g2 = (going3, g3, a3)"
    by (cases "run exe envs g2") auto
  have "snd (snd (run exe (genv # genv2 # envs) g))
          = Launch ?cmd # replicate (polls_running genv) (Sleep 1)
            @ Sleep 3600 # Launch ?cmd # (if going2 then tail @ a3 else tail)"
    using pass nxt a2 rest by simp
  then show "\<exists>rest. snd (snd (run exe (genv # genv2 # envs) g))
            = Launch ?cmd # replicate (polls_running genv) (Sleep 1)
              @ Sleep 3600 # Launch ?cmd # rest"
    by blast
next
  show "restart_history (fst (monitor_loop rnd menvs monitor_init)) = []"
    using monitor_init_never_records by blast
next
  show "fst (fst (check_restart_limit t (fst (monitor_loop rnd menvs monitor_init)))) = True"
    using monitor_init_never_records [of rnd menvs]
    by (simp add: check_restart_limit_def Let_def)
qed

theorem C2_denied_backs_off_witness:
  "fst (snd (run ''python'' nine_crashes guardian_init)) = guardian_busy
   \<and> spawned (worker_crash 4242 (seconds 4000)) = Some 4242
   \<and> interrupt (worker_crash 4242 (seconds 4000)) = NotInterrupted
   \<and> guardian_max_restarts_per_hour guardian_busy
        \<le> int (window_count (now_check (worker_crash 4242 (seconds 4000)))
                 (restart_times guardian_busy @ [exit_time (worker_crash 4242 (seconds 4000))]))
   \<and> fst (run_pass ''python'' (worker_crash 4242 (seconds 4000)) guardian_busy) = True
   \<and> restart_times (fst (snd (run_pass ''python'' (worker_crash 4242 (seconds 4000)) guardian_busy))) = []
   \<and> snd (snd (run_pass ''python'' (worker_crash 4242 (seconds 4000)) guardian_busy))
       = [Launch [''python'', ''main.py'', ''--auto-start''], Sleep 1, Sleep 1, Sleep 1, Sleep 3600]"
proof -
  have a: "spawned (worker_crash 4242 (seconds 4000)) = Some 4242"
    "interrupt (worker_crash 4242 (seconds 4000)) = NotInterrupted"
    "polls_running (worker_crash 4242 (seconds 4000)) = 3"
    by (simp_all add: worker_crash_def)
  have b: "guardian_max_restarts_per_hour guardian_busy
        \<le> int (window_count (now_check (worker_crash 4242 (seconds 4000)))
                 (restart_times guardian_busy @ [exit_time (worker_crash 4242 (seconds 4000))]))"
    by (simp add: guardian_busy_def guardian_init_def worker_crash_def seconds_def minutes_def
          one_hour_def)
  have c: "watchdog_script guardian_busy = ''main.py''"
    by (simp add: guardian_busy_def guardian_init_def)
  have d: "replicate 3 (Sleep 1) = [Sleep 1, Sleep 1, Sleep 1]"
    by (simp add: numeral_3_eq_3)
  have e: "fst (snd (run ''python'' nine_crashes guardian_init)) = guardian_busy"
    by (simp add: nine_crashes_guardian_busy)
  from C2_denied_backs_off_full_window
         [of "worker_crash 4242 (seconds 4000)" 4242 guardian_busy "''python''"]
       a b c d e
  show ?thesis by simp
qed

lemma run_pass_start_fails:
  "spawned env = None \<Longrightarrow> interrupt env \<noteq> WhileSleeping \<Longrightarrow>
   run_pass exe env g
     = (True, g, [Launch [exe, watchdog_script g, ''--auto-start''], Sleep (restart_delay g)])"
  by (simp add: run_pass_def start_watchdog_def Let_def)

lemma run_start_failures:
  "\<forall>env \<in> set envs. spawned env = None \<and> interrupt env \<noteq> WhileSleeping \<Longrightarrow>
   run exe envs g
     = (True, g,
        concat (replicate (length envs)
          [Launch [exe, watchdog_script g, ''--auto-start''], Sleep (restart_delay g)]))"
  by (induction envs) (simp_all add: run_pass_start_fails)

text \<open>
  Claim C6.  A start that fails adds no restart event.  In the guardian, any number of
  consecutive failed starts leaves the state as it was, restart history included, keeps
  the loop going, and each failed launch is followed by a sleep of the restart delay
  before the next one; the admission check is not even consulted.  In the monitor,
  \<open>restart_main_program\<close>, whose start always fails, returns \<open>False\<close> and leaves the
  history as the admission check pruned it, with nothing appended (so an empty history
  stays empty) and the restart count as it was; over any number of passes of its loop the
  history only loses events and the count is unchanged.
\<close>

theorem C6_failed_start_records_nothing:
  "((\<forall>env \<in> set envs. spawned env = None \<and> interrupt env \<noteq> WhileSleeping) \<longrightarrow>
      run exe envs g
        = (True, g,
           concat (replicate (length envs)
             [Launch [exe, watchdog_script g, ''--auto-start''], Sleep (restart_delay g)])))
   \<and> fst (restart_main_program renv m) = False
   \<and> restart_history (fst (snd (restart_main_program renv m)))
       = [t \<leftarrow> restart_history m. t > limit_now renv - one_hour]
   \<and> restart_count (fst (snd (restart_main_program renv m))) = restart_count m
   \<and> (restart_history m = [] \<longrightarrow>
         restart_history (fst (snd (restart_main_program renv m))) = [])
   \<and> set (restart_history (fst (monitor_loop rnd menvs m))) \<subseteq> set (restart_history m)
   \<and> restart_count (fst (monitor_loop rnd menvs m)) = restart_count m"
  using run_start_failures [of envs exe g]
        check_restart_limit_history [of "limit_now renv" m]
        monitor_loop_keeps [of rnd menvs m]
  by (simp add: restart_main_program_eq)

theorem C6_failed_start_records_nothing_witness:
  "spawned start_failure = None
   \<and> interrupt start_failure = NotInterrupted
   \<and> run ''python'' [start_failure, start_failure, start_failure] guardian_init
       = (True, guardian_init,
          [Launch [''python'', ''main.py'', ''--auto-start''], Sleep 5,
           Launch [''python'', ''main.py'', ''--auto-start''], Sleep 5,
           Launch [''python'', ''main.py'', ''--auto-start''], Sleep 5])
   \<and> restart_times guardian_init = []
   \<and> restart_history (fst (snd (restart_main_program
        (restart_answers (seconds 4000) None ExitedInTime) monitor_init))) = []"
proof -
  have a: "\<forall>env \<in> set [start_failure, start_failure, start_failure].
        spawned env = None \<and> interrupt env \<noteq> WhileSleeping"
    by (simp add: start_failure_def)
  have c: "watchdog_script guardian_init = ''main.py''" "restart_delay guardian_init = 5"
    "restart_times guardian_init = []" "restart_history monitor_init = []"
    by (simp_all add: guardian_init_def monitor_init_def)
  have d: "replicate (length [start_failure, start_failure, start_failure]) x = [x, x, x]" for x :: "action list"
    by (simp add: numeral_3_eq_3)
  from C6_failed_start_records_nothing
         [of "[start_failure, start_failure, start_failure]" "''python''" guardian_init
             "restart_answers (seconds 4000) None ExitedInTime" monitor_init]
       a c
  show ?thesis by (simp add: d start_failure_def)
qed

text \<open>
  Claim C7, as amended.  Whatever the outside world answers, between any two consecutive
  launches the guardian sleeps at least the smaller of its restart delay and the 3600
  seconds of the back-off (so at least the restart delay whenever that is at most one
  hour), and the monitor sleeps at least its check interval.
\<close>

theorem C7_launches_are_spaced:
  "spaced (min (restart_delay g) 3600) (snd (snd (run exe envs g)))
   \<and> (restart_delay g \<le> 3600 \<longrightarrow> spaced (restart_delay g) (snd (snd (run exe envs g))))
   \<and> spaced (check_interval m) (snd (monitor_loop rnd menvs m))"
  using run_spaced [of g exe envs] monitor_loop_keeps [of rnd menvs m]
  by (auto simp: min_def spaced_quiet)

theorem C7_launches_are_spaced_witness:
  "restart_delay guardian_init \<le> 3600
   \<and> spaced 5 (snd (snd (run ''python''
        [worker_crash 4242 (seconds 4000), start_failure, worker_crash 4243 (seconds 4010)]
        guardian_init)))
   \<and> snd (snd (run ''python''
        [worker_crash 4242 (seconds 4000), start_failure, worker_crash 4243 (seconds 4010)]
        guardian_init))
      = [Launch [''python'', ''main.py'', ''--auto-start''], Sleep 1, Sleep 1, Sleep 1, Sleep 5,
         Launch [''python'', ''main.py'', ''--auto-start''], Sleep 5,
         Launch [''python'', ''main.py'', ''--auto-start''], Sleep 1, Sleep 1, Sleep 1, Sleep 5]"
proof -
  have a: "restart_delay guardian_init = 5"
    by (simp add: guardian_init_def)
  have b: "snd (snd (run ''python''
        [worker_crash 4242 (seconds 4000), start_failure, worker_crash 4243 (seconds 4010)]
        guardian_init))
      = [Launch [''python'', ''main.py'', ''--auto-start''], Sleep 1, Sleep 1, Sleep 1, Sleep 5,
         Launch [''python'', ''main.py'', ''--auto-start''], Sleep 5,
         Launch [''python'', ''main.py'', ''--auto-start''], Sleep 1, Sleep 1, Sleep 1, Sleep 5]"
    by (simp add: run_pass_def start_watchdog_def poll_def is_too_many_restarts_def
          worker_crash_def start_failure_def guardian_init_def seconds_def minutes_def
          one_hour_def numeral_3_eq_3)
  from C7_launches_are_spaced
         [of guardian_init "''python''"
             "[worker_crash 4242 (seconds 4000), start_failure, worker_crash 4243 (seconds 4010)]"]
       a b
  show ?thesis by simp
qed

theorem C7_long_restart_delay_counterexample:
  "restart_delay guardian_slow = 7200
   \<and> snd (snd (run ''python'' [worker_crash 4242 (seconds 4000), start_failure] guardian_slow))
       = [Launch [''python'', ''main.py'', ''--auto-start''], Sleep 1, Sleep 1, Sleep 1,
          Sleep 3600,
          Launch [''python'', ''main.py'', ''--auto-start''], Sleep 7200]
   \<and> \<not> spaced (restart_delay guardian_slow)
          (snd (snd (run ''python'' [worker_crash 4242 (seconds 4000), start_failure] guardian_slow)))"
  by (simp add: run_pass_def start_watchdog_def poll_def is_too_many_restarts_def
        worker_crash_def start_failure_def guardian_slow_def guardian_init_def seconds_def
        minutes_def one_hour_def numeral_3_eq_3)

section \<open>Properties of the closed-files table\<close>

lemma format_duration_twenty_minutes:
  "format_duration (total_seconds (minutes 20)) = MinutesSecondsText 20 0"
  by (simp add: format_duration_def total_seconds_def minutes_def seconds_def py_int_def
        py_floordiv_def py_mod_def)

lemma not_open_iff: "not_open item \<longleftrightarrow> is_open (snd item) = Some False"
  by (auto simp: not_open_def split: option.splits)

lemma closed_file_row_eq:
  "closed_file_row basename now (path, st)
     = (basename path,
        (case last_author st of None \<Rightarrow> unknown_author | Some a \<Rightarrow> a),
        strftime_HMS (case opened_at st of None \<Rightarrow> now | Some t \<Rightarrow> t),
        strftime_HMS ((case opened_at st of None \<Rightarrow> now | Some t \<Rightarrow> t) + minutes 20),
        MinutesSecondsText 20 0)"
  using format_duration_twenty_minutes by (simp add: closed_file_row_def Let_def)

lemma set_py_take: "set (py_take limit xs) \<subseteq> set xs"
  by (auto simp: py_take_def dest: in_set_takeD)

lemma py_take_all: "int (length xs) \<le> limit \<Longrightarrow> py_take limit xs = xs"
  by (auto simp: py_take_def)

lemma show_closed_files_table_rows:
  "set (show_closed_files_table basename now file_status limit)
     \<subseteq> closed_file_row basename now ` {item \<in> set file_status. is_open (snd item) = Some False}"
proof -
  let ?rows = "map (closed_file_row basename now) (filter not_open file_status)"
  have "set (show_closed_files_table basename now file_status limit)
          \<subseteq> set (rev (sort_key (\<lambda>x. fst (snd (snd x))) (rev ?rows)))"
    using set_py_take [of limit "rev (sort_key (\<lambda>x. fst (snd (snd x))) (rev ?rows))"]
    by (auto simp: show_closed_files_table_def Let_def)
  also have "\<dots> = set ?rows" by simp
  also have "\<dots> = closed_file_row basename now ` {item \<in> set file_status. is_open (snd item) = Some False}"
    by (auto simp: not_open_iff)
  finally show ?thesis .
qed

lemma show_closed_files_table_all:
  assumes "int (length (filter not_open file_status)) \<le> limit"
  shows "set (show_closed_files_table basename now file_status limit)
     = closed_file_row basename now ` {item \<in> set file_status. is_open (snd item) = Some False}"
proof -
  let ?rows = "map (closed_file_row basename now) (filter not_open file_status)"
  let ?sorted = "rev (sort_key (\<lambda>x. fst (snd (snd x))) (rev ?rows))"
  have "int (length ?sorted) \<le> limit" using assms by simp
  then have "py_take limit ?sorted = ?sorted" by (rule py_take_all)
  then have "set (show_closed_files_table basename now file_status limit) = set ?rows"
    by (cases "?rows = []") (simp_all add: show_closed_files_table_def Let_def)
  also have "\<dots> = closed_file_row basename now ` {item \<in> set file_status. is_open (snd item) = Some False}"
    by (auto simp: not_open_iff)
  finally show ?thesis .
qed

text \<open>
  Claim C9.  Every row of the closed-files table comes from an entry marked as not open,
  and in it the closing time shown is the time of day of the opening time plus twenty
  minutes and the time in use shown is twenty minutes and zero seconds, whatever the
  entry; when the limit does not cut the table, every entry marked as not open has its
  row.
\<close>

theorem C9_closed_rows_show_open_time_plus_twenty_minutes:
  "(row \<in> set (show_closed_files_table basename now file_status limit) \<longrightarrow>
      (\<exists>item \<in> set file_status. is_open (snd item) = Some False
          \<and> row = closed_file_row basename now item)
      \<and> snd (snd (snd (snd row))) = MinutesSecondsText 20 0)
   \<and> closed_file_row basename now (path, st)
       = (basename path,
          (case last_author st of None \<Rightarrow> unknown_author | Some a \<Rightarrow> a),
          strftime_HMS (case opened_at st of None \<Rightarrow> now | Some t \<Rightarrow> t),
          strftime_HMS ((case opened_at st of None \<Rightarrow> now | Some t \<Rightarrow> t) + minutes 20),
          MinutesSecondsText 20 0)
   \<and> (int (length (filter not_open file_status)) \<le> limit \<longrightarrow>
      set (show_closed_files_table basename now file_status limit)
        = closed_file_row basename now ` {item \<in> set file_status. is_open (snd item) = Some False})"
proof (intro conjI impI)
  assume "row \<in> set (show_closed_files_table basename now file_status limit)"
  then obtain item where item: "item \<in> set file_status" "is_open (snd item) = Some False"
    "row = closed_file_row basename now item"
    using show_closed_files_table_rows [of basename now file_status limit] by auto
  then show "\<exists>item \<in> set file_status. is_open (snd item) = Some False
          \<and> row = closed_file_row basename now item"
    by blast
  show "snd (snd (snd (snd row))) = MinutesSecondsText 20 0"
    using item(3) closed_file_row_eq [of basename now "fst item" "snd item"] by simp
next
  show "closed_file_row basename now (path, st)
       = (basename path,
          (case last_author st of None \<Rightarrow> unknown_author | Some a \<Rightarrow> a),
          strftime_HMS (case opened_at st of None \<Rightarrow> now | Some t \<Rightarrow> t),
          strftime_HMS ((case opened_at st of None \<Rightarrow> now | Some t \<Rightarrow> t) + minutes 20),
          MinutesSecondsText 20 0)"
    by (rule closed_file_row_eq)
next
  assume "int (length (filter not_open file_status)) \<le> limit"
  then show "set (show_closed_files_table basename now file_status limit)
        = closed_file_row basename now ` {item \<in> set file_status. is_open (snd item) = Some False}"
    by (rule show_closed_files_table_all)
qed


lemma create_mock_data_closed:
  "filter not_open (create_mock_data t)
     = [(''Data_v3.xlsx'', \<lparr>is_open = Some False, last_author = Some ''Jane Smith'',
                          opened_at = Some (t - minutes 120)\<rparr>),
      (''Report.xlsx'', \<lparr>is_open = Some False, last_author = Some ''Michael Cheng'',
                         opened_at = Some (t - minutes 90)\<rparr>)]"
  by (simp add: create_mock_data_def not_open_def)

lemma mock_row_data:
  "closed_file_row (\<lambda>p. p) mock_now (''Data_v3.xlsx'', \<lparr>is_open = Some False, last_author = Some ''Jane Smith'',
                          opened_at = Some (mock_now - minutes 120)\<rparr>)
   = (''Data_v3.xlsx'', ''Jane Smith'', ''12:00:00'', ''12:20:00'', MinutesSecondsText 20 0)"
  by (simp add: closed_file_row_eq strftime_HMS_def two_digits_def mock_now_def seconds_def minutes_def)

lemma mock_row_report:
  "closed_file_row (\<lambda>p. p) mock_now (''Report.xlsx'', \<lparr>is_open = Some False, last_author = Some ''Michael Cheng'',
                         opened_at = Some (mock_now - minutes 90)\<rparr>)
   = (''Report.xlsx'', ''Michael Cheng'', ''12:30:00'', ''12:50:00'', MinutesSecondsText 20 0)"
  by (simp add: closed_file_row_eq strftime_HMS_def two_digits_def mock_now_def seconds_def minutes_def)

lemma opening_times_order: "''12:00:00'' \<le> ''12:30:00''" "\<not> ''12:30:00'' \<le> ''12:00:00''"
  by (simp_all add: less_eq_char_def less_char_def)

lemma mock_table:
  "show_closed_files_table (\<lambda>p. p) mock_now
       (create_mock_data mock_now) 10
     = [(''Report.xlsx'', ''Michael Cheng'', ''12:30:00'', ''12:50:00'', MinutesSecondsText 20 0),
        (''Data_v3.xlsx'', ''Jane Smith'', ''12:00:00'', ''12:20:00'', MinutesSecondsText 20 0)]"
  by (simp add: show_closed_files_table_def create_mock_data_closed mock_row_data mock_row_report py_take_def opening_times_order)

theorem C9_closed_rows_witness:
  "(''Data_v3.xlsx'', ''Jane Smith'', ''12:00:00'', ''12:20:00'', MinutesSecondsText 20 0)
     \<in> set (show_closed_files_table (\<lambda>p. p) mock_now (create_mock_data mock_now) 10)
   \<and> int (length (filter not_open (create_mock_data mock_now))) \<le> 10
   \<and> show_closed_files_table (\<lambda>p. p) mock_now (create_mock_data mock_now) 10
       = [(''Report.xlsx'', ''Michael Cheng'', ''12:30:00'', ''12:50:00'', MinutesSecondsText 20 0),
          (''Data_v3.xlsx'', ''Jane Smith'', ''12:00:00'', ''12:20:00'', MinutesSecondsText 20 0)]"
proof -
  have a: "(''Data_v3.xlsx'', ''Jane Smith'', ''12:00:00'', ''12:20:00'', MinutesSecondsText 20 0)
     \<in> set (show_closed_files_table (\<lambda>p. p) mock_now (create_mock_data mock_now) 10)"
    by (simp add: mock_table)
  have b: "int (length (filter not_open (create_mock_data mock_now))) \<le> 10"
    by (simp add: create_mock_data_closed)
  from C9_closed_rows_show_open_time_plus_twenty_minutes
         [of "(''Data_v3.xlsx'', ''Jane Smith'', ''12:00:00'', ''12:20:00'', MinutesSecondsText 20 0)"
             "\<lambda>p. p" mock_now "create_mock_data mock_now" 10]
       a b mock_table
  show ?thesis by simp
qed

end
